theory Spec2Isabelle
  imports Complex_Main
begin

section \<open>Numbers and dates of the host language\<close>

text \<open>
  The ledger screens compute with JavaScript numbers. Amounts and rates are modelled as
  exact reals: what is verified is the arithmetic the components write down, not the
  rounding error of IEEE doubles. Where a parse can yield \<open>NaN\<close> the value is a
  \<open>real option\<close> with \<open>None\<close> for \<open>NaN\<close>. A nullable column is an \<open>option\<close> as well.
\<close>

definition Math_round :: "real \<Rightarrow> real" where
  \<comment> \<open>\<open>Math.round\<close>: the nearest integer, a tie going towards plus infinity.\<close>
  "Math_round x = of_int \<lfloor>x + 1 / 2\<rfloor>"

definition Math_ceil :: "real \<Rightarrow> real" where
  "Math_ceil x = of_int \<lceil>x\<rceil>"

definition Math_floor :: "real \<Rightarrow> real" where
  "Math_floor x = of_int \<lfloor>x\<rfloor>"

definition Math_max :: "real \<Rightarrow> real \<Rightarrow> real" where
  "Math_max a b = (if a < b then b else a)"

text \<open>
  A \<open>Date\<close> object is what its getters return: the epoch time in milliseconds and the
  calendar fields in local time. The constructor \<open>new Date(string)\<close> belongs to the
  runtime; the functions below take it as the parameter \<open>new_Date\<close>, and the current
  instant (\<open>new Date()\<close>) as the parameter \<open>now\<close>.
\<close>

record js_date =
  getTime :: int
  getFullYear :: int
  getMonth :: int
  getDate :: int

section \<open>Bill reminders (pages/BillReminders.tsx)\<close>

record reminder_bill =
  id :: string
  bill_number :: "string option"
  bill_amount :: real
  due_date :: string
  bill_date :: string
  interest_rate :: "real option"
  interest_type :: "string option"
  is_active :: bool
  mahajan_id :: string
  mahajans_name :: "string option"

record reminder_tx =
  amount :: real
  transaction_type :: string

record BillReminder =
  id :: string
  bill_number :: string
  mahajan_name :: string
  mahajan_id :: string
  bill_amount :: real
  due_date :: string
  interest_rate :: real
  interest_type :: string
  amount_due :: real
  outstanding_balance :: real
  bill_date :: string

definition reminder_totals :: "reminder_tx list \<Rightarrow> real \<times> real" where
  \<comment> \<open>The \<open>forEach\<close> over the bill's transactions: \<open>(totalPaid, totalInterestPaid)\<close>.\<close>
  "reminder_totals transactions =
     foldl (\<lambda>(totalPaid, totalInterestPaid) tx.
        (if reminder_tx.transaction_type tx = ''payment''
            \<or> reminder_tx.transaction_type tx = ''principal''
         then totalPaid + reminder_tx.amount tx else totalPaid,
         if reminder_tx.transaction_type tx = ''interest''
         then totalInterestPaid + reminder_tx.amount tx else totalInterestPaid))
       (0, 0) transactions"

definition reminder_balance :: "reminder_bill \<Rightarrow> reminder_tx list \<Rightarrow> real" where
  "reminder_balance bill transactions =
     reminder_bill.bill_amount bill - fst (reminder_totals transactions)"

definition reminder_interest ::
  "(string \<Rightarrow> js_date) \<Rightarrow> string \<Rightarrow> reminder_bill \<Rightarrow> real \<Rightarrow> real" where
  \<comment> \<open>Both branches test \<open>bill.interest_rate > 0\<close>, which is false for a null rate.\<close>
  "reminder_interest new_Date dateStr bill balance =
     (case reminder_bill.interest_rate bill of
        None \<Rightarrow> 0
      | Some rate \<Rightarrow>
          if reminder_bill.interest_type bill = Some ''simple'' \<and> rate > 0 then
            (let daysSinceDue =
                   Math_max 0 (Math_floor
                     (real_of_int (getTime (new_Date dateStr)
                                   - getTime (new_Date (reminder_bill.due_date bill)))
                      / (1000 * 60 * 60 * 24)))
             in (balance * rate * daysSinceDue) / (100 * 365))
          else if reminder_bill.interest_type bill = Some ''flat'' \<and> rate > 0 then
            (balance * rate) / 100
          else 0)"

definition reminder_amount_due ::
  "(string \<Rightarrow> js_date) \<Rightarrow> string \<Rightarrow> reminder_bill \<Rightarrow> reminder_tx list \<Rightarrow> real" where
  "reminder_amount_due new_Date dateStr bill transactions =
     (let balance = reminder_balance bill transactions;
          interest = reminder_interest new_Date dateStr bill balance
      in balance + Math_max 0 (interest - snd (reminder_totals transactions)))"

definition reminder_of ::
  "(string \<Rightarrow> js_date) \<Rightarrow> string \<Rightarrow> reminder_bill \<Rightarrow> reminder_tx list \<Rightarrow> BillReminder" where
  "reminder_of new_Date dateStr bill transactions =
     \<lparr> BillReminder.id = reminder_bill.id bill,
       bill_number = (case reminder_bill.bill_number bill of
                        None \<Rightarrow> ''N/A'' | Some n \<Rightarrow> if n = [] then ''N/A'' else n),
       mahajan_name = (case mahajans_name bill of
                         None \<Rightarrow> ''Unknown'' | Some n \<Rightarrow> if n = [] then ''Unknown'' else n),
       mahajan_id = reminder_bill.mahajan_id bill,
       bill_amount = reminder_bill.bill_amount bill,
       due_date = reminder_bill.due_date bill,
       interest_rate = (case reminder_bill.interest_rate bill of None \<Rightarrow> 0 | Some r \<Rightarrow> r),
       interest_type = (case reminder_bill.interest_type bill of
                          None \<Rightarrow> ''none'' | Some t \<Rightarrow> if t = [] then ''none'' else t),
       amount_due = reminder_amount_due new_Date dateStr bill transactions,
       outstanding_balance = reminder_balance bill transactions,
       bill_date = reminder_bill.bill_date bill \<rparr>"

text \<open>
  The loop of \<open>fetchReminders\<close>. Each bill's transactions come from a query of their own
  (\<open>fetch_tx\<close>, \<open>Inl\<close> when the query reports an error); an error is thrown, and the
  reminders collected so far are dropped. A bill is listed only with a positive balance.
\<close>

fun reminders_loop ::
  "(string \<Rightarrow> js_date) \<Rightarrow> (string \<Rightarrow> string + reminder_tx list) \<Rightarrow> string
     \<Rightarrow> reminder_bill list \<Rightarrow> BillReminder list \<Rightarrow> string + BillReminder list" where
  "reminders_loop new_Date fetch_tx dateStr [] remindersData = Inr remindersData"
| "reminders_loop new_Date fetch_tx dateStr (bill # bills) remindersData =
     (case fetch_tx (reminder_bill.id bill) of
        Inl txError \<Rightarrow> Inl txError
      | Inr transactions \<Rightarrow>
          reminders_loop new_Date fetch_tx dateStr bills
            (if reminder_balance bill transactions > 0
             then remindersData @ [reminder_of new_Date dateStr bill transactions]
             else remindersData))"

definition fetchReminders ::
  "(string \<Rightarrow> js_date) \<Rightarrow> (string + reminder_bill list)
     \<Rightarrow> (string \<Rightarrow> string + reminder_tx list) \<Rightarrow> string \<Rightarrow> string + BillReminder list" where
  "fetchReminders new_Date bills_query fetch_tx dateStr =
     (case bills_query of
        Inl billsError \<Rightarrow> Inl billsError
      | Inr bills \<Rightarrow> reminders_loop new_Date fetch_tx dateStr bills [])"

section \<open>Bills of one mahajan (components/MahajanDetails.tsx)\<close>

record Bill =
  id :: string
  bill_amount :: real
  interest_rate :: "real option"
  interest_type :: "string option"
  bill_date :: string
  due_date :: "string option"
  description :: "string option"
  is_active :: "bool option"

record BillTransaction =
  id :: string
  bill_id :: string
  amount :: real
  payment_date :: string
  transaction_type :: string
  payment_mode :: string
  notes' :: "string option"

definition calculateBillBalance :: "BillTransaction list \<Rightarrow> Bill list \<Rightarrow> string \<Rightarrow> real" where
  "calculateBillBalance transactions bills billId =
     (let billTransactions = filter (\<lambda>t. BillTransaction.bill_id t = billId) transactions;
          totalPaid = foldl (\<lambda>sum t. sum + BillTransaction.amount t) 0 billTransactions
      in case find (\<lambda>b. Bill.id b = billId) bills of
           Some bill \<Rightarrow> Bill.bill_amount bill - totalPaid
         | None \<Rightarrow> 0)"

definition calculateInterest_accrued :: "(string \<Rightarrow> js_date) \<Rightarrow> js_date \<Rightarrow> Bill \<Rightarrow> real \<Rightarrow> real" where
  \<comment> \<open>The local variable \<open>interest\<close> of \<open>calculateInterest\<close> when the return is reached,
      for a bill that passed the guard on rate and type; \<open>r\<close> is \<open>bill.interest_rate\<close>.\<close>
  "calculateInterest_accrued new_Date now bill balance =
     (case Bill.interest_rate bill of
        None \<Rightarrow> 0
      | Some r \<Rightarrow>
         (let rate = r / 100;
              startDate = new_Date (Bill.bill_date bill);
              endDate = now
          in if Bill.interest_type bill = Some ''daily'' then
               (let daysDiff = Math_ceil (real_of_int (getTime endDate - getTime startDate)
                                          / (1000 * 3600 * 24))
                in balance * rate * (daysDiff / 365))
             else if Bill.interest_type bill = Some ''monthly'' then
               (let months = real_of_int ((getFullYear endDate - getFullYear startDate) * 12
                                          + (getMonth endDate - getMonth startDate));
                    daysInMonth = real_of_int (getDate endDate - getDate startDate) / 30
                in balance * rate * (months + daysInMonth))
             else 0))"

definition calculateInterest :: "(string \<Rightarrow> js_date) \<Rightarrow> js_date \<Rightarrow> Bill \<Rightarrow> real \<Rightarrow> real" where
  \<comment> \<open>\<open>!bill.interest_rate\<close> holds for a null and for a zero rate.\<close>
  "calculateInterest new_Date now bill balance =
     (if Bill.interest_rate bill = None \<or> Bill.interest_rate bill = Some 0
         \<or> Bill.interest_type bill = Some ''none''
      then 0
      else Math_round (calculateInterest_accrued new_Date now bill balance * 100) / 100)"

definition calculateTotalOutstanding ::
  "(string \<Rightarrow> js_date) \<Rightarrow> js_date \<Rightarrow> BillTransaction list \<Rightarrow> Bill list \<Rightarrow> real" where
  \<comment> \<open>\<open>!bill.is_active\<close> holds for a null and for a false flag.\<close>
  "calculateTotalOutstanding new_Date now transactions bills =
     foldl (\<lambda>sum bill.
        if Bill.is_active bill \<noteq> Some True then sum
        else (let balance = calculateBillBalance transactions bills (Bill.id bill);
                  interest = calculateInterest new_Date now bill balance
              in sum + balance + interest))
       0 bills"

text \<open>
  \<open>handlePaymentSubmit\<close>. The state holds what the handler can change: the rows it has
  inserted into \<open>bill_transactions\<close>, the toasts shown and the dialog's fields. The answer
  of the insert request is the parameter \<open>insert_error\<close> (\<open>None\<close>: the row was stored).
  \<open>parseFloat\<close> is the runtime's; \<open>None\<close> is \<open>NaN\<close>.
\<close>

record payment_form =
  amount :: string
  paymentType :: string
  notes' :: string
  payment_mode :: string

record BillTransactionInsert =
  bill_id :: string
  amount :: real
  transaction_type :: string
  payment_mode :: string
  notes' :: "string option"

record toast_message =
  destructive :: bool
  title :: string
  description :: string

record details_state =
  bill_transactions :: "BillTransactionInsert list"
  toasts :: "toast_message list"
  paymentData :: payment_form
  showPaymentDialog :: bool
  selectedBillId :: string
  loading :: bool

definition handlePaymentSubmit ::
  "(string \<Rightarrow> real option) \<Rightarrow> string option \<Rightarrow> string option \<Rightarrow> details_state \<Rightarrow> details_state" where
  "handlePaymentSubmit parseFloat user insert_error st =
     (if user = None \<or> selectedBillId st = [] then st
      else
        (let invalid = st\<lparr>toasts := toasts st @
                [\<lparr>destructive = True, title = ''Invalid Amount'',
                  description = ''Please enter a valid amount''\<rparr>]\<rparr>
         in case parseFloat (payment_form.amount (paymentData st)) of
              None \<Rightarrow> invalid
            | Some amount' \<Rightarrow>
                if amount' \<le> 0 then invalid
                else
                  (case insert_error of
                     Some error \<Rightarrow>
                       st\<lparr>toasts := toasts st @
                            [\<lparr>destructive = True, title = ''Error'',
                              description = ''Failed to record payment''\<rparr>],
                          loading := False\<rparr>
                   | None \<Rightarrow>
                       st\<lparr>bill_transactions := details_state.bill_transactions st @
                            [\<lparr>BillTransactionInsert.bill_id = selectedBillId st,
                              amount = amount',
                              transaction_type = paymentType (paymentData st),
                              payment_mode = payment_form.payment_mode (paymentData st),
                              notes' = (if payment_form.notes' (paymentData st) = [] then None
                                        else Some (payment_form.notes' (paymentData st)))\<rparr>],
                          toasts := toasts st @
                            [\<lparr>destructive = False, title = ''Payment recorded'',
                              description = ''Payment has been successfully recorded''\<rparr>],
                          paymentData := \<lparr>payment_form.amount = [], paymentType = ''principal'',
                                           notes' = [], payment_mode = ''cash''\<rparr>,
                          showPaymentDialog := False,
                          selectedBillId := [],
                          loading := False\<rparr>)))"

section \<open>The runtime's doubles\<close>

text \<open>
  The numbers of the runtime are binary64 doubles. \<open>to_double\<close> rounds a real to the
  nearest double, a tie going to the even mantissa: \<open>binade\<close> finds the exponent that
  brings the magnitude into the 53-bit range (its fuel covers every exponent of the
  format), a value below the normal range takes the least exponent, and a value beyond
  the greatest exponent, where the runtime has an infinity, is left as it is.
  \<open>calculateInterest_double\<close> is \<open>calculateInterest\<close> with every quotient, product and sum
  rounded so; \<open>Math.round\<close> and \<open>Math.ceil\<close> are exact on a double, and so are the
  differences of the integer date fields.
\<close>

definition round_half_even :: "real \<Rightarrow> int" where
  "round_half_even x =
     (let f = \<lfloor>x\<rfloor>; d = x - of_int f
      in if d < 1 / 2 then f else if d > 1 / 2 then f + 1 else if even f then f else f + 1)"

fun binade :: "nat \<Rightarrow> real \<Rightarrow> int \<Rightarrow> int option" where
  "binade 0 x e = None"
| "binade (Suc fuel) x e =
     (if x < 2 ^ 52 then binade fuel (x * 2) (e - 1)
      else if x \<ge> 2 ^ 53 then binade fuel (x / 2) (e + 1)
      else Some e)"

definition pow2 :: "int \<Rightarrow> real" where
  "pow2 e = (if e \<ge> 0 then 2 ^ nat e else 1 / 2 ^ nat (- e))"

definition to_double :: "real \<Rightarrow> real" where
  "to_double x =
     (if x = 0 then 0
      else case binade 2200 \<bar>x\<bar> 0 of
             None \<Rightarrow> x
           | Some e \<Rightarrow>
               if e > 971 then x
               else (let e' = max e (- 1074)
                     in sgn x * of_int (round_half_even (\<bar>x\<bar> / pow2 e')) * pow2 e'))"

definition js_times :: "real \<Rightarrow> real \<Rightarrow> real" where
  "js_times a b = to_double (a * b)"

definition js_over :: "real \<Rightarrow> real \<Rightarrow> real" where
  "js_over a b = to_double (a / b)"

definition js_plus :: "real \<Rightarrow> real \<Rightarrow> real" where
  "js_plus a b = to_double (a + b)"

definition calculateInterest_double :: "(string \<Rightarrow> js_date) \<Rightarrow> js_date \<Rightarrow> Bill \<Rightarrow> real \<Rightarrow> real" where
  "calculateInterest_double new_Date now bill balance =
     (case Bill.interest_rate bill of
        None \<Rightarrow> 0
      | Some r \<Rightarrow>
          if r = 0 \<or> Bill.interest_type bill = Some ''none'' then 0
          else
            (let rate = js_over r 100;
                 startDate = new_Date (Bill.bill_date bill);
                 endDate = now;
                 interest =
                   (if Bill.interest_type bill = Some ''daily'' then
                      (let daysDiff = Math_ceil (js_over (real_of_int (getTime endDate - getTime startDate))
                                                   (1000 * 3600 * 24))
                       in js_times (js_times balance rate) (js_over daysDiff 365))
                    else if Bill.interest_type bill = Some ''monthly'' then
                      (let months = real_of_int ((getFullYear endDate - getFullYear startDate) * 12
                                                 + (getMonth endDate - getMonth startDate));
                           daysInMonth = js_over (real_of_int (getDate endDate - getDate startDate)) 30
                       in js_times (js_times balance rate) (js_plus months daysInMonth))
                    else 0)
             in js_over (Math_round (js_times interest 100)) 100))"

section \<open>Payments on a customer's sales (RecordSalePaymentDialog)\<close>

record sale_row =
  id :: string
  sale_number :: "string option"
  sale_amount :: real

record sale_transaction_row =
  sale_id :: string
  amount :: real
  transaction_type :: string

record Sale =
  id :: string
  sale_number :: string
  sale_amount :: real
  outstanding :: real

definition sale_totalPaid :: "sale_transaction_row list \<Rightarrow> real" where
  "sale_totalPaid transactions =
     foldl (\<lambda>sum t. sum + sale_transaction_row.amount t) 0
       (filter (\<lambda>t. sale_transaction_row.transaction_type t = ''payment'') transactions)"

definition sale_totalRefund :: "sale_transaction_row list \<Rightarrow> real" where
  "sale_totalRefund transactions =
     foldl (\<lambda>sum t. sum + sale_transaction_row.amount t) 0
       (filter (\<lambda>t. sale_transaction_row.transaction_type t = ''refund'') transactions)"

definition sale_outstanding :: "sale_row \<Rightarrow> sale_transaction_row list option \<Rightarrow> real" where
  \<comment> \<open>The body shared by \<open>fetchCustomerSales\<close> and the recomputation in \<open>onSubmit\<close>;
      \<open>transData\<close> is null when its query failed.\<close>
  "sale_outstanding sale transData =
     (let transactions = (case transData of
                            None \<Rightarrow> []
                          | Some td \<Rightarrow> filter (\<lambda>t. sale_transaction_row.sale_id t = sale_row.id sale) td)
      in sale_row.sale_amount sale - sale_totalPaid transactions + sale_totalRefund transactions)"

definition fetchCustomerSales :: "sale_row list \<Rightarrow> sale_transaction_row list option \<Rightarrow> Sale list" where
  \<comment> \<open>The value passed to \<open>setSales\<close> for a non-empty \<open>salesData\<close>.\<close>
  "fetchCustomerSales salesData transData =
     filter (\<lambda>s. outstanding s > 0)
       (map (\<lambda>sale.
          \<lparr> Sale.id = sale_row.id sale,
            sale_number = (case sale_row.sale_number sale of
                             None \<Rightarrow> ''N/A'' | Some n \<Rightarrow> if n = [] then ''N/A'' else n),
            sale_amount = sale_row.sale_amount sale,
            outstanding = sale_outstanding sale transData \<rparr>) salesData)"

record PaymentFormData =
  sale_id :: string
  amount :: string
  payment_date :: string
  payment_mode :: string
  transaction_type :: string
  notes' :: "string option"

record SaleTransactionInsert =
  sale_id :: string
  amount :: "real option"
  payment_date :: string
  payment_mode :: string
  transaction_type :: string
  notes' :: "string option"

datatype sale_toast =
    Select_customer
      \<comment> \<open>error: Please select a customer\<close>
  | Select_valid_sale
      \<comment> \<open>error: Please select a valid sale\<close>
  | Exceeds_outstanding real
      \<comment> \<open>error: Payment amount cannot exceed outstanding amount of (the sale's outstanding)\<close>
  | Failed string
      \<comment> \<open>error: the message of the thrown error\<close>
  | Recorded
      \<comment> \<open>success: Payment recorded successfully\<close>

record sale_state =
  sale_transactions :: "SaleTransactionInsert list"
  outstanding_amount :: real
  sale_toasts :: "sale_toast list"

definition onSubmit ::
  "(string \<Rightarrow> real option) \<Rightarrow> string option \<Rightarrow> (string \<times> string) option \<Rightarrow> Sale list
     \<Rightarrow> string option \<Rightarrow> sale_row list option \<Rightarrow> sale_transaction_row list option
     \<Rightarrow> PaymentFormData \<Rightarrow> sale_state \<Rightarrow> sale_state" where
  \<comment> \<open>\<open>sales\<close> is the dialog's list from \<open>fetchCustomerSales\<close>; \<open>insert_error\<close> is the answer
      of the insert; \<open>allSalesData\<close> and \<open>allTransData\<close> are the answers of the two queries
      made after it. A \<open>NaN\<close> amount is not greater than anything.\<close>
  "onSubmit parseFloat user customer sales insert_error allSalesData allTransData data st =
     (if user = None \<or> customer = None then
        st\<lparr>sale_toasts := sale_toasts st @ [Select_customer]\<rparr>
      else
        case find (\<lambda>s. Sale.id s = PaymentFormData.sale_id data) sales of
          None \<Rightarrow> st\<lparr>sale_toasts := sale_toasts st @ [Select_valid_sale]\<rparr>
        | Some selectedSale \<Rightarrow>
            (let paymentAmount = parseFloat (PaymentFormData.amount data)
             in if (case paymentAmount of
                      None \<Rightarrow> False
                    | Some a \<Rightarrow> a > outstanding selectedSale)
                then st\<lparr>sale_toasts := sale_toasts st
                          @ [Exceeds_outstanding (outstanding selectedSale)]\<rparr>
                else
                  (case insert_error of
                     Some message \<Rightarrow>
                       st\<lparr>sale_toasts := sale_toasts st
                            @ [Failed (if message = [] then ''Failed to record payment''
                                       else message)]\<rparr>
                   | None \<Rightarrow>
                       (let st1 = st\<lparr>sale_transactions := sale_transactions st @
                                   [\<lparr>SaleTransactionInsert.sale_id = PaymentFormData.sale_id data,
                                     amount = paymentAmount,
                                     payment_date = PaymentFormData.payment_date data,
                                     payment_mode = PaymentFormData.payment_mode data,
                                     transaction_type = PaymentFormData.transaction_type data,
                                     notes' = (case PaymentFormData.notes' data of
                                                 None \<Rightarrow> None
                                               | Some n \<Rightarrow> if n = [] then None else Some n)\<rparr>]\<rparr>;
                            st2 = (case allSalesData of
                                     None \<Rightarrow> st1
                                   | Some rows \<Rightarrow>
                                       st1\<lparr>outstanding_amount :=
                                             foldl (\<lambda>totalOutstanding sale.
                                                      totalOutstanding
                                                      + sale_outstanding sale allTransData)
                                                   0 rows\<rparr>)
                        in st2\<lparr>sale_toasts := sale_toasts st2 @ [Recorded]\<rparr>))))"

section \<open>Summary per mahajan (components/MahajanSummary.tsx)\<close>

text \<open>
  The rows of the nested select: a mahajan with its bills, a bill with its transactions.
  Of a transaction only \<open>id\<close>, \<open>amount\<close> and \<open>payment_date\<close> are selected. \<open>bills\<close> and
  \<open>bill_transactions\<close> may be missing (\<open>|| []\<close> in the source).
\<close>

record summary_tx =
  id :: string
  amount :: real
  payment_date :: string

record summary_bill =
  id :: string
  bill_amount :: real
  is_active :: "bool option"
  bill_transactions :: "summary_tx list option"

record summary_mahajan =
  id :: string
  name :: string
  phone :: "string option"
  bills :: "summary_bill list option"

record MahajanSummaryData =
  mahajan_id :: string
  mahajan_name :: string
  mahajan_phone :: "string option"
  total_bills :: nat
  active_bills :: nat
  total_bill_amount :: real
  total_paid_amount :: real
  outstanding_balance :: real
  last_payment_date :: "string option"
  avg_payment_amount :: "real option"
  payment_frequency :: nat

definition js_divide :: "real \<Rightarrow> real \<Rightarrow> real option" where
  \<comment> \<open>A division whose divisor is zero yields \<open>NaN\<close> or an infinity: \<open>None\<close>.\<close>
  "js_divide a b = (if b = 0 then None else Some (a / b))"

definition allTransactions_of :: "summary_bill list \<Rightarrow> summary_tx list" where
  \<comment> \<open>\<open>bills.flatMap(bill => bill.bill_transactions || [])\<close>\<close>
  "allTransactions_of bs =
     concat (map (\<lambda>bill. case summary_bill.bill_transactions bill of None \<Rightarrow> [] | Some ts \<Rightarrow> ts) bs)"

definition sort_by_payment_date_desc ::
  "(string \<Rightarrow> js_date) \<Rightarrow> summary_tx list \<Rightarrow> summary_tx list" where
  \<comment> \<open>\<open>sort((a, b) => new Date(b.payment_date).getTime() - new Date(a.payment_date).getTime())\<close>:
      the stable sort, latest time first.\<close>
  "sort_by_payment_date_desc new_Date ts =
     sort_key (\<lambda>t. - getTime (new_Date (summary_tx.payment_date t))) ts"

definition processMahajan :: "(string \<Rightarrow> js_date) \<Rightarrow> summary_mahajan \<Rightarrow> MahajanSummaryData" where
  "processMahajan new_Date mahajan =
     (let bills' = (case summary_mahajan.bills mahajan of None \<Rightarrow> [] | Some bs \<Rightarrow> bs);
          totalBills = length bills';
          activeBills = length (filter (\<lambda>bill. summary_bill.is_active bill = Some True) bills');
          totalBillAmount = foldl (\<lambda>sum bill. sum + summary_bill.bill_amount bill) 0 bills';
          allTransactions = allTransactions_of bills';
          totalPaidAmount = foldl (\<lambda>sum trans. sum + summary_tx.amount trans) 0 allTransactions;
          outstandingBalance = totalBillAmount - totalPaidAmount;
          lastPaymentDate =
            (if length allTransactions > 0
             then (case sort_by_payment_date_desc new_Date allTransactions of
                     t # _ \<Rightarrow> Some (summary_tx.payment_date t)
                   | [] \<Rightarrow> None)
             else None);
          avgPaymentAmount =
            (if length allTransactions > 0
             then js_divide totalPaidAmount (real (length allTransactions))
             else Some 0);
          paymentFrequency = length allTransactions
      in \<lparr> MahajanSummaryData.mahajan_id = summary_mahajan.id mahajan,
           mahajan_name = summary_mahajan.name mahajan,
           mahajan_phone = summary_mahajan.phone mahajan,
           total_bills = totalBills,
           active_bills = activeBills,
           total_bill_amount = totalBillAmount,
           total_paid_amount = totalPaidAmount,
           outstanding_balance = outstandingBalance,
           last_payment_date = lastPaymentDate,
           avg_payment_amount = avgPaymentAmount,
           payment_frequency = paymentFrequency \<rparr>)"

definition in_date_range :: "(string \<Rightarrow> js_date) \<Rightarrow> string \<Rightarrow> string \<Rightarrow> MahajanSummaryData \<Rightarrow> bool" where
  \<comment> \<open>The predicate of the date filter; an absent or empty \<open>last_payment_date\<close> is falsy.
      Two \<open>Date\<close> objects compare by their time values.\<close>
  "in_date_range new_Date startDate endDate mahajan =
     (case last_payment_date mahajan of
        None \<Rightarrow> False
      | Some d \<Rightarrow>
          if d = [] then False
          else (let paymentDate = new_Date d;
                    fromDate = new_Date startDate;
                    toDate = new_Date endDate
                in getTime paymentDate \<ge> getTime fromDate \<and> getTime paymentDate \<le> getTime toDate))"

definition filterByDateRange ::
  "(string \<Rightarrow> js_date) \<Rightarrow> string \<Rightarrow> string \<Rightarrow> MahajanSummaryData list \<Rightarrow> MahajanSummaryData list" where
  "filterByDateRange new_Date startDate endDate processedData =
     (if startDate \<noteq> [] \<and> endDate \<noteq> []
      then filter (in_date_range new_Date startDate endDate) processedData
      else processedData)"

text \<open>
  \<open>fetchSummaryData\<close> with its cache. \<open>query\<close> is the request to the store for a status
  filter (\<open>Inl\<close>: the request failed); the arguments \<open>fromDate\<close>, \<open>toDate\<close> and
  \<open>statusFilter\<close> are optional and fall back on the component's state.
\<close>

record summary_state =
  dateFrom :: string
  dateTo :: string
  billStatusFilter :: string
  summaryData :: "MahajanSummaryData list"
  cache :: "(string \<times> MahajanSummaryData list) list"
  summary_loading :: bool
  summary_toasts :: "toast_message list"

definition or_else :: "string option \<Rightarrow> string \<Rightarrow> string" where
  \<comment> \<open>\<open>a || b\<close> on an optional string: undefined and the empty string are falsy.\<close>
  "or_else a b = (case a of None \<Rightarrow> b | Some s \<Rightarrow> if s = [] then b else s)"

definition fetchSummaryData ::
  "(string \<Rightarrow> js_date) \<Rightarrow> (string \<Rightarrow> string + summary_mahajan list option) \<Rightarrow> string option
     \<Rightarrow> string option \<Rightarrow> string option \<Rightarrow> string option \<Rightarrow> summary_state \<Rightarrow> summary_state" where
  "fetchSummaryData new_Date query user fromDate toDate statusFilter st =
     (if user = None then st
      else
        (let startDate = or_else fromDate (dateFrom st);
             endDate = or_else toDate (dateTo st);
             filter' = or_else statusFilter (billStatusFilter st);
             cacheKey = startDate @ ''-'' @ endDate @ ''-'' @ filter'
         in case map_of (cache st) cacheKey of
              Some cached \<Rightarrow> st\<lparr>summaryData := cached, summary_loading := False\<rparr>
            | None \<Rightarrow>
                (case query filter' of
                   Inl error \<Rightarrow>
                     st\<lparr>summary_toasts := summary_toasts st @
                          [\<lparr>destructive = True, title = ''Error'',
                            description = ''Failed to fetch mahajan summary data''\<rparr>],
                        summary_loading := False\<rparr>
                 | Inr data \<Rightarrow>
                     (let processedData =
                            map (processMahajan new_Date) (case data of None \<Rightarrow> [] | Some rows \<Rightarrow> rows);
                          filteredData = filterByDateRange new_Date startDate endDate processedData
                      in st\<lparr>cache := (cacheKey, filteredData) # cache st,
                            summaryData := filteredData,
                            summary_loading := False\<rparr>))))"

text \<open>
  The store behind the nested select, as far as the select text determines it: the
  mahajans of the user, each with its bills (\<open>bills!inner\<close>: a mahajan without a bill that
  passes the status filter is not returned), each bill with its transactions. The
  transaction's \<open>transaction_type\<close> is not among the selected columns.
\<close>

record db_mahajan =
  id :: string
  name :: string
  phone :: "string option"
  user_id :: string

record db_bill =
  id :: string
  mahajan_id :: string
  bill_amount :: real
  is_active :: "bool option"

definition select_transactions :: "BillTransaction list \<Rightarrow> string \<Rightarrow> summary_tx list" where
  "select_transactions txs bid =
     map (\<lambda>t. \<lparr>summary_tx.id = BillTransaction.id t, amount = BillTransaction.amount t,
                payment_date = BillTransaction.payment_date t\<rparr>)
       (filter (\<lambda>t. BillTransaction.bill_id t = bid) txs)"

definition select_bills :: "db_bill list \<Rightarrow> BillTransaction list \<Rightarrow> string \<Rightarrow> string \<Rightarrow> summary_bill list" where
  "select_bills bs txs filter' mid =
     map (\<lambda>b. \<lparr>summary_bill.id = db_bill.id b, bill_amount = db_bill.bill_amount b,
                is_active = db_bill.is_active b,
                bill_transactions = Some (select_transactions txs (db_bill.id b))\<rparr>)
       (filter (\<lambda>b. db_bill.mahajan_id b = mid
                    \<and> (if filter' = ''active'' then db_bill.is_active b = Some True
                        else if filter' = ''closed'' then db_bill.is_active b = Some False
                        else True)) bs)"

definition summary_select ::
  "db_mahajan list \<Rightarrow> db_bill list \<Rightarrow> BillTransaction list \<Rightarrow> string \<Rightarrow> string \<Rightarrow> summary_mahajan list" where
  "summary_select ms bs txs uid filter' =
     filter (\<lambda>m. summary_mahajan.bills m \<noteq> Some [])
       (map (\<lambda>m. \<lparr>summary_mahajan.id = db_mahajan.id m, name = db_mahajan.name m,
                  phone = db_mahajan.phone m,
                  bills = Some (select_bills bs txs filter' (db_mahajan.id m))\<rparr>)
          (filter (\<lambda>m. user_id m = uid) ms))"

section \<open>The specification's wording\<close>

text \<open>
  The quantities below are written from the specification's sentences, to be compared
  with the functions above, which are written from the components.
\<close>

definition spec_totalPaid :: "('t \<Rightarrow> string) \<Rightarrow> ('t \<Rightarrow> real) \<Rightarrow> 't list \<Rightarrow> real" where
  \<comment> \<open>The sum of the amounts whose kind is \<open>payment\<close> or \<open>principal\<close>.\<close>
  "spec_totalPaid kind_of amount_of txs =
     sum_list (map amount_of
       (filter (\<lambda>t. kind_of t = ''payment'' \<or> kind_of t = ''principal'') txs))"

definition spec_total_of_kind :: "string \<Rightarrow> ('t \<Rightarrow> string) \<Rightarrow> ('t \<Rightarrow> real) \<Rightarrow> 't list \<Rightarrow> real" where
  \<comment> \<open>The sum of the amounts of one kind.\<close>
  "spec_total_of_kind k kind_of amount_of txs =
     sum_list (map amount_of (filter (\<lambda>t. kind_of t = k) txs))"



definition spec_flat :: "real \<Rightarrow> real \<Rightarrow> real" where
  "spec_flat balance rate = balance * (rate / 100)"


definition spec_round_half_up_2dp :: "real \<Rightarrow> real" where
  \<comment> \<open>An amount rounded to two decimal places, a half going up.\<close>
  "spec_round_half_up_2dp x = of_int \<lfloor>x * 100 + 1 / 2\<rfloor> / 100"

section \<open>Data of the worked examples\<close>

text \<open>
  The runtime's \<open>new Date\<close> and \<open>parseFloat\<close> on the strings that the examples use: the
  dates read in UTC (epoch milliseconds, zero-based month; a date without a time is the
  midnight), the amounts as decimal numerals.
\<close>

definition example_dates :: "(string \<times> js_date) list" where
  "example_dates =
     [(''2024-01-01'', \<lparr>getTime = 1704067200000, getFullYear = 2024, getMonth = 0, getDate = 1\<rparr>),
      (''2024-01-02'', \<lparr>getTime = 1704153600000, getFullYear = 2024, getMonth = 0, getDate = 2\<rparr>),
      (''2024-01-05'', \<lparr>getTime = 1704412800000, getFullYear = 2024, getMonth = 0, getDate = 5\<rparr>),
      (''2024-01-11'', \<lparr>getTime = 1704931200000, getFullYear = 2024, getMonth = 0, getDate = 11\<rparr>),
      (''2024-01-30T12:00:00Z'',
         \<lparr>getTime = 1706616000000, getFullYear = 2024, getMonth = 0, getDate = 30\<rparr>),
      (''2024-01-31'', \<lparr>getTime = 1706659200000, getFullYear = 2024, getMonth = 0, getDate = 31\<rparr>),
      (''2024-02-10'', \<lparr>getTime = 1707523200000, getFullYear = 2024, getMonth = 1, getDate = 10\<rparr>),
      (''2024-03-01'', \<lparr>getTime = 1709251200000, getFullYear = 2024, getMonth = 2, getDate = 1\<rparr>),
      (''2024-04-01'', \<lparr>getTime = 1711929600000, getFullYear = 2024, getMonth = 3, getDate = 1\<rparr>)]"

definition example_Date :: "string \<Rightarrow> js_date" where
  "example_Date s =
     (case map_of example_dates s of
        Some d \<Rightarrow> d
      | None \<Rightarrow> \<lparr>getTime = 0, getFullYear = 1970, getMonth = 0, getDate = 1\<rparr>)"

definition example_parseFloat :: "string \<Rightarrow> real option" where
  "example_parseFloat s =
     map_of [(''400'', 400), (''700'', 700), (''5000'', 5000), (''0'', 0), (''-5'', - 5)] s"

text \<open>
  A small store for the summary: Ram has one bill with a principal payment of 400 on
  2024-01-05 and an interest payment of 50 on 2024-02-10, Shyam has one bill without any
  transaction, Gita has one closed bill paid in full on 2024-03-01.
\<close>

definition example_mahajans :: "db_mahajan list" where
  "example_mahajans =
     [\<lparr>db_mahajan.id = ''m1'', name = ''Ram'', phone = None, user_id = ''u1''\<rparr>,
      \<lparr>db_mahajan.id = ''m2'', name = ''Shyam'', phone = None, user_id = ''u1''\<rparr>,
      \<lparr>db_mahajan.id = ''m3'', name = ''Gita'', phone = None, user_id = ''u1''\<rparr>]"

definition example_bills :: "db_bill list" where
  "example_bills =
     [\<lparr>db_bill.id = ''b1'', mahajan_id = ''m1'', bill_amount = 1000, is_active = Some True\<rparr>,
      \<lparr>db_bill.id = ''b2'', mahajan_id = ''m2'', bill_amount = 500, is_active = Some True\<rparr>,
      \<lparr>db_bill.id = ''b3'', mahajan_id = ''m3'', bill_amount = 800, is_active = Some False\<rparr>]"

definition example_transactions :: "BillTransaction list" where
  "example_transactions =
     [\<lparr>BillTransaction.id = ''t1'', bill_id = ''b1'', amount = 400, payment_date = ''2024-01-05'',
       transaction_type = ''principal'', payment_mode = ''cash'', notes' = None\<rparr>,
      \<lparr>BillTransaction.id = ''t2'', bill_id = ''b1'', amount = 50, payment_date = ''2024-02-10'',
       transaction_type = ''interest'', payment_mode = ''cash'', notes' = None\<rparr>,
      \<lparr>BillTransaction.id = ''t3'', bill_id = ''b3'', amount = 800, payment_date = ''2024-03-01'',
       transaction_type = ''principal'', payment_mode = ''bank'', notes' = None\<rparr>]"

definition example_rows :: "summary_mahajan list" where
  "example_rows = summary_select example_mahajans example_bills example_transactions ''u1'' ''all''"

text \<open>
  The store's answer to the summary's request when it holds the given transactions, a
  request that fails, and the summary screen before its first request.
\<close>

definition example_query :: "BillTransaction list \<Rightarrow> string \<Rightarrow> string + summary_mahajan list option" where
  "example_query txs filter' =
     Inr (Some (summary_select example_mahajans example_bills txs ''u1'' filter'))"

definition example_failing_query :: "string \<Rightarrow> string + summary_mahajan list option" where
  "example_failing_query filter' = Inl ''Failed to fetch''"

definition example_summary_state :: summary_state where
  "example_summary_state =
     \<lparr>dateFrom = [], dateTo = [], billStatusFilter = ''all'', summaryData = [], cache = [],
      summary_loading = True, summary_toasts = []\<rparr>"

section \<open>The specification's examples on the components\<close>

text \<open>
  Example 1: 1000 at 10 percent daily, read on the bill date, with no transaction: the
  balance is 1000 and the interest 0.
\<close>

lemma spec_example_1:
  "calculateBillBalance []
     [\<lparr>Bill.id = ''b1'', bill_amount = 1000, interest_rate = Some 10, interest_type = Some ''daily'',
       bill_date = ''2024-01-01'', due_date = None, description = None, is_active = Some True\<rparr>]
     ''b1'' = 1000
   \<and> calculateInterest example_Date (example_Date ''2024-01-01'')
       \<lparr>Bill.id = ''b1'', bill_amount = 1000, interest_rate = Some 10,
         interest_type = Some ''daily'', bill_date = ''2024-01-01'', due_date = None,
         description = None, is_active = Some True\<rparr> 1000 = 0"
  by (simp add: calculateBillBalance_def calculateInterest_def calculateInterest_accrued_def
      example_Date_def example_dates_def Math_round_def Math_ceil_def)

text \<open>
  Example 3: 1000 with one payment of 400 leaves 600, on the reminders page, for a sale
  and in \<open>calculateBillBalance\<close>.
\<close>

lemma spec_example_3:
  "reminder_balance
     \<lparr>reminder_bill.id = ''b1'', bill_number = None, bill_amount = 1000,
       due_date = ''2024-01-31'', bill_date = ''2024-01-01'', interest_rate = None,
       interest_type = None, is_active = True, mahajan_id = ''m1'', mahajans_name = None\<rparr>
     [\<lparr>reminder_tx.amount = 400, transaction_type = ''payment''\<rparr>] = 600
   \<and> sale_outstanding \<lparr>sale_row.id = ''s1'', sale_number = None, sale_amount = 1000\<rparr>
       (Some [\<lparr>sale_transaction_row.sale_id = ''s1'', amount = 400,
                transaction_type = ''payment''\<rparr>]) = 600
   \<and> calculateBillBalance
       [\<lparr>BillTransaction.id = ''t1'', bill_id = ''b1'', amount = 400, payment_date = ''2024-01-05'',
         transaction_type = ''payment'', payment_mode = ''cash'', notes' = None\<rparr>]
       [\<lparr>Bill.id = ''b1'', bill_amount = 1000, interest_rate = None, interest_type = None,
         bill_date = ''2024-01-01'', due_date = None, description = None, is_active = Some True\<rparr>]
       ''b1'' = 600"
  by (simp add: reminder_balance_def reminder_totals_def sale_outstanding_def sale_totalPaid_def
      sale_totalRefund_def calculateBillBalance_def)

text \<open>
  Example 4: 500 at 24 percent monthly from 2024-01-01 to 2024-04-01 is three whole
  months, and the interest is 360.
\<close>

lemma spec_example_4:
  "calculateInterest example_Date (example_Date ''2024-04-01'')
     \<lparr>Bill.id = ''b1'', bill_amount = 500, interest_rate = Some 24, interest_type = Some ''monthly'',
       bill_date = ''2024-01-01'', due_date = None, description = None, is_active = Some True\<rparr>
     500 = 360"
  by (simp add: calculateInterest_def calculateInterest_accrued_def example_Date_def
      example_dates_def Math_round_def)

section \<open>The balance reducers\<close>

lemma foldl_add_sum_list:
  "foldl (\<lambda>sum t. sum + f t) a xs = a + sum_list (map f xs)" for a :: real
  by (induction xs arbitrary: a) simp_all

lemma reminder_totals_fold:
  "foldl (\<lambda>(totalPaid, totalInterestPaid) tx.
        (if reminder_tx.transaction_type tx = ''payment''
            \<or> reminder_tx.transaction_type tx = ''principal''
         then totalPaid + reminder_tx.amount tx else totalPaid,
         if reminder_tx.transaction_type tx = ''interest''
         then totalInterestPaid + reminder_tx.amount tx else totalInterestPaid))
       (p, i) txs
   = (p + spec_totalPaid reminder_tx.transaction_type reminder_tx.amount txs,
      i + spec_total_of_kind ''interest'' reminder_tx.transaction_type reminder_tx.amount txs)"
  by (induction txs arbitrary: p i) (simp_all add: spec_totalPaid_def spec_total_of_kind_def)

lemma reminder_totals_eq:
  "reminder_totals txs =
     (spec_totalPaid reminder_tx.transaction_type reminder_tx.amount txs,
      spec_total_of_kind ''interest'' reminder_tx.transaction_type reminder_tx.amount txs)"
  unfolding reminder_totals_def by (simp add: reminder_totals_fold)

lemma sale_totalPaid_eq:
  "sale_totalPaid txs =
     spec_total_of_kind ''payment'' sale_transaction_row.transaction_type
       sale_transaction_row.amount txs"
  by (simp add: sale_totalPaid_def spec_total_of_kind_def foldl_add_sum_list)

lemma sale_totalRefund_eq:
  "sale_totalRefund txs =
     spec_total_of_kind ''refund'' sale_transaction_row.transaction_type
       sale_transaction_row.amount txs"
  by (simp add: sale_totalRefund_def spec_total_of_kind_def foldl_add_sum_list)

text \<open>
  What each reducer sums. The balance of a bill on the reminders page is the bill amount
  minus the amounts of kind \<open>payment\<close> or \<open>principal\<close>, so a transaction of another kind
  does not change it. The outstanding of a sale is the sale amount minus the amounts of
  kind \<open>payment\<close> plus the amounts of kind \<open>refund\<close>, over the sale's own transactions.
  \<open>calculateBillBalance\<close> looks at no kind: it is the bill amount minus the amounts of all
  the bill's transactions, and 0 for an unknown bill.
\<close>

lemma balance_reducers:
  "reminder_balance bill txs
     = reminder_bill.bill_amount bill
       - spec_totalPaid reminder_tx.transaction_type reminder_tx.amount txs
   \<and> sale_outstanding sale (Some td)
     = sale_row.sale_amount sale
       - spec_total_of_kind ''payment'' sale_transaction_row.transaction_type
           sale_transaction_row.amount
           (filter (\<lambda>t. sale_transaction_row.sale_id t = sale_row.id sale) td)
       + spec_total_of_kind ''refund'' sale_transaction_row.transaction_type
           sale_transaction_row.amount
           (filter (\<lambda>t. sale_transaction_row.sale_id t = sale_row.id sale) td)
   \<and> calculateBillBalance transactions bs billId
     = (case find (\<lambda>b. Bill.id b = billId) bs of
          Some b \<Rightarrow> Bill.bill_amount b
                     - sum_list (map BillTransaction.amount
                         (filter (\<lambda>t. BillTransaction.bill_id t = billId) transactions))
        | None \<Rightarrow> 0)"
  by (simp add: reminder_balance_def reminder_totals_eq sale_outstanding_def
      sale_totalPaid_eq sale_totalRefund_eq calculateBillBalance_def foldl_add_sum_list Let_def
      split: option.split)

text \<open>
  C1 at a bill of 1000 with one transaction of kind \<open>interest\<close> and amount 100.
  \<open>calculateBillBalance\<close> subtracts the interest payment and gives 900; the reminders
  page, on the same transaction of the same bill, gives 1000, and so does the bill
  amount minus the sum over the kinds \<open>payment\<close> and \<open>principal\<close>.
\<close>

theorem bill_balance_reducers_disagree:
  "calculateBillBalance
     [\<lparr>BillTransaction.id = ''t1'', bill_id = ''b1'', amount = 100, payment_date = ''2024-01-05'',
       transaction_type = ''interest'', payment_mode = ''cash'', notes' = None\<rparr>]
     [\<lparr>Bill.id = ''b1'', bill_amount = 1000, interest_rate = None, interest_type = None,
       bill_date = ''2024-01-01'', due_date = None, description = None, is_active = Some True\<rparr>]
     ''b1'' = 900
   \<and> reminder_balance
       \<lparr>reminder_bill.id = ''b1'', bill_number = None, bill_amount = 1000,
         due_date = ''2024-01-31'', bill_date = ''2024-01-01'', interest_rate = None,
         interest_type = None, is_active = True, mahajan_id = ''m1'', mahajans_name = None\<rparr>
       [\<lparr>reminder_tx.amount = 100, transaction_type = ''interest''\<rparr>] = 1000
   \<and> 1000 - spec_totalPaid BillTransaction.transaction_type BillTransaction.amount
       [\<lparr>BillTransaction.id = ''t1'', bill_id = ''b1'', amount = 100, payment_date = ''2024-01-05'',
         transaction_type = ''interest'', payment_mode = ''cash'', notes' = None\<rparr>] = 1000"
  by (simp add: calculateBillBalance_def spec_totalPaid_def reminder_balance_def
      reminder_totals_def)

section \<open>Interest\<close>

text \<open>
  C2 at a bill dated after the current instant. The bill of 1000 at 10 percent, daily,
  is dated 2024-01-11 and read on 2024-01-01: \<open>daysDiff\<close> is -10 and nothing clamps it,
  so \<open>calculateInterest\<close> returns -2.74.
\<close>

theorem calculateInterest_negative:
  "calculateInterest example_Date (example_Date ''2024-01-01'')
     \<lparr>Bill.id = ''b1'', bill_amount = 1000, interest_rate = Some 10, interest_type = Some ''daily'',
       bill_date = ''2024-01-11'', due_date = None, description = None, is_active = Some True\<rparr>
     1000 = - 274 / 100"
  by (simp add: calculateInterest_def calculateInterest_accrued_def example_Date_def
      example_dates_def Math_round_def Math_ceil_def)

text \<open>
  On the reminders page the elapsed days are clamped at zero, so the interest computed
  there on a balance that is not negative is not negative either.
\<close>

lemma reminder_interest_nonneg:
  assumes "0 \<le> balance"
  shows "0 \<le> reminder_interest new_Date dateStr rb balance"
  using assms
  by (auto simp: reminder_interest_def Math_max_def Let_def split: option.split)






text \<open>
  The exponent search goes down one binade for each doubling, and a positive value that
  \<open>2 ^ k\<close> scales into the 53-bit range is rounded at that scale.
\<close>

lemma binade_down:
  assumes "0 < x" and "2 ^ 52 \<le> x * 2 ^ k" and "x * 2 ^ k < 2 ^ 53" and "k < n"
  shows "binade n x e = Some (e - int k)"
  using assms
proof (induction k arbitrary: x e n)
  case 0
  then obtain n' where "n = Suc n'" by (cases n) auto
  with 0 show ?case by simp
next
  case (Suc k)
  then obtain n' where n: "n = Suc n'" by (cases n) auto
  have "x * 2 ^ Suc k < 2 ^ 53" using Suc.prems by simp
  moreover have "x * 2 \<le> x * 2 ^ Suc k"
    using Suc.prems(1) by (simp add: mult_left_mono)
  ultimately have small: "x < 2 ^ 52" by simp
  have "binade n' (x * 2) (e - 1) = Some (e - 1 - int k)"
    using Suc.prems n by (intro Suc.IH) (simp_all add: mult.assoc)
  with small n show ?case by simp
qed

lemma to_double_scaled:
  assumes "0 < x" and "2 ^ 52 \<le> x * 2 ^ k" and "x * 2 ^ k < 2 ^ 53" and "k \<le> 1074"
  shows "to_double x = of_int (round_half_even (x * 2 ^ k)) / 2 ^ k"
proof -
  have "binade 2200 \<bar>x\<bar> 0 = Some (0 - int k)"
    using assms by (intro binade_down) simp_all
  moreover have "pow2 (- int k) = 1 / 2 ^ k"
    by (simp add: pow2_def)
  moreover have "max (- int k) (- 1074) = - int k"
    using assms(4) by simp
  ultimately show ?thesis
    using assms(1) by (simp add: to_double_def Let_def)
qed

lemma example_Date_2024_01_01:
  "example_Date ''2024-01-01''
     = \<lparr>getTime = 1704067200000, getFullYear = 2024, getMonth = 0, getDate = 1\<rparr>"
  by (simp add: example_Date_def example_dates_def)

text \<open>
  C5 at a bill of 105 at 3 percent monthly, dated 2024-01-01 and read on 2024-01-22, 21
  days or 0.7 month later. The interest is 105 * 0.03 * 0.7 = 2.205, which rounded to two
  decimals, a half going up, is 2.21. In doubles the product is 2.2049999999999996, a
  hundred times it is 220.49999999999997, \<open>Math.round\<close> makes 220 of it, and the function
  returns the double of 2.2.
\<close>

theorem calculateInterest_double_misses_tie:
  "calculateInterest_double example_Date
     \<lparr>getTime = 1705881600000, getFullYear = 2024, getMonth = 0, getDate = 22\<rparr>
     \<lparr>Bill.id = ''b1'', bill_amount = 105, interest_rate = Some 3, interest_type = Some ''monthly'',
       bill_date = ''2024-01-01'', due_date = None, description = None, is_active = Some True\<rparr>
     105 = 2476979795053773 / 1125899906842624
   \<and> 2476979795053773 / 1125899906842624 = to_double (220 / 100)
   \<and> spec_round_half_up_2dp (105 * (3 / 100) * (0 + 21 / 30)) = 221 / 100"
proof -
  have r: "js_over 3 100 = 1080863910568919 / 36028797018963968"
    unfolding js_over_def
    by (subst to_double_scaled [where k = 58]) (simp_all add: round_half_even_def)
  have d: "js_over 21 30 = 3152519739159347 / 4503599627370496"
    unfolding js_over_def
    by (subst to_double_scaled [where k = 53]) (simp_all add: round_half_even_def)
  have m: "js_plus 0 (3152519739159347 / 4503599627370496) = 3152519739159347 / 4503599627370496"
    unfolding js_plus_def
    by (subst to_double_scaled [where k = 53]) (simp_all add: round_half_even_def)
  have br: "js_times 105 (1080863910568919 / 36028797018963968)
              = 7093169413108531 / 2251799813685248"
    unfolding js_times_def
    by (subst to_double_scaled [where k = 51]) (simp_all add: round_half_even_def)
  have i: "js_times (7093169413108531 / 2251799813685248) (3152519739159347 / 4503599627370496)
             = 4965218589175971 / 2251799813685248"
    unfolding js_times_def
    by (subst to_double_scaled [where k = 51]) (simp_all add: round_half_even_def)
  have h: "js_times (4965218589175971 / 2251799813685248) 100
             = 7758154045587455 / 35184372088832"
    unfolding js_times_def
    by (subst to_double_scaled [where k = 45]) (simp_all add: round_half_even_def)
  have k: "Math_round (7758154045587455 / 35184372088832) = 220"
    unfolding Math_round_def by simp
  have v: "to_double (220 / 100) = 2476979795053773 / 1125899906842624"
    by (subst to_double_scaled [where k = 51]) (simp_all add: round_half_even_def)
  have "calculateInterest_double example_Date
     \<lparr>getTime = 1705881600000, getFullYear = 2024, getMonth = 0, getDate = 22\<rparr>
     \<lparr>Bill.id = ''b1'', bill_amount = 105, interest_rate = Some 3, interest_type = Some ''monthly'',
       bill_date = ''2024-01-01'', due_date = None, description = None, is_active = Some True\<rparr>
     105 = js_over 220 100"
    by (simp add: calculateInterest_double_def example_Date_2024_01_01 r d m br i h k)
  moreover have "spec_round_half_up_2dp (105 * (3 / 100) * (0 + 21 / 30)) = 221 / 100"
    by (simp add: spec_round_half_up_2dp_def)
  ultimately show ?thesis using v by (simp add: js_over_def)
qed

text \<open>
  C6, as the reminders page computes the flat interest. For a bill of type \<open>flat\<close> the
  interest does not depend on the selected date; it is \<open>balance * (rate / 100)\<close> when
  the rate is positive, and 0 when the rate is null, zero or negative.
\<close>

theorem flat_interest:
  assumes "reminder_bill.interest_type rb = Some ''flat''"
  shows "reminder_interest new_Date d1 rb balance = reminder_interest new_Date d2 rb balance
       \<and> reminder_interest new_Date d1 rb balance
           = (case reminder_bill.interest_rate rb of
                None \<Rightarrow> 0
              | Some r \<Rightarrow> if r > 0 then spec_flat balance r else 0)"
  using assms by (simp add: reminder_interest_def spec_flat_def split: option.split)

text \<open>
  C6 at the specification's example: 1000 at 12 percent flat is 120 on 2024-01-02 and on
  2024-03-01.
\<close>

theorem flat_interest_witness:
  "reminder_interest example_Date ''2024-01-02''
     \<lparr>reminder_bill.id = ''b1'', bill_number = Some ''B-1'', bill_amount = 1000,
       due_date = ''2024-01-01'', bill_date = ''2024-01-01'', interest_rate = Some 12,
       interest_type = Some ''flat'', is_active = True, mahajan_id = ''m1'',
       mahajans_name = Some ''Ram''\<rparr> 1000
   = reminder_interest example_Date ''2024-03-01''
     \<lparr>reminder_bill.id = ''b1'', bill_number = Some ''B-1'', bill_amount = 1000,
       due_date = ''2024-01-01'', bill_date = ''2024-01-01'', interest_rate = Some 12,
       interest_type = Some ''flat'', is_active = True, mahajan_id = ''m1'',
       mahajans_name = Some ''Ram''\<rparr> 1000
   \<and> reminder_interest example_Date ''2024-01-02''
     \<lparr>reminder_bill.id = ''b1'', bill_number = Some ''B-1'', bill_amount = 1000,
       due_date = ''2024-01-01'', bill_date = ''2024-01-01'', interest_rate = Some 12,
       interest_type = Some ''flat'', is_active = True, mahajan_id = ''m1'',
       mahajans_name = Some ''Ram''\<rparr> 1000 = 120"
  using flat_interest [of
     "\<lparr>reminder_bill.id = ''b1'', bill_number = Some ''B-1'', bill_amount = 1000,
       due_date = ''2024-01-01'', bill_date = ''2024-01-01'', interest_rate = Some 12,
       interest_type = Some ''flat'', is_active = True, mahajan_id = ''m1'',
       mahajans_name = Some ''Ram''\<rparr>" example_Date "''2024-01-02''" 1000 "''2024-03-01''"]
  by (simp add: spec_flat_def)

text \<open>
  C6 as the specification words it fails for a negative rate, which the page's guard
  \<open>interest_rate > 0\<close> turns into no interest at all.
\<close>

theorem flat_interest_negative_rate:
  "reminder_interest example_Date ''2024-02-10''
     \<lparr>reminder_bill.id = ''b1'', bill_number = Some ''B-1'', bill_amount = 1000,
       due_date = ''2024-01-01'', bill_date = ''2024-01-01'', interest_rate = Some (- 5),
       interest_type = Some ''flat'', is_active = True, mahajan_id = ''m1'',
       mahajans_name = Some ''Ram''\<rparr> 1000 = 0
   \<and> spec_flat 1000 (- 5) = - 50"
  by (simp add: reminder_interest_def spec_flat_def)

section \<open>Recording a payment\<close>

text \<open>
  C4, as the two handlers gate the amount. In the sale dialog (\<open>onSubmit\<close>), with a user,
  a customer and a selected sale, an amount greater than that sale's outstanding is
  rejected: the only change of the state is the error toast, no row is inserted and the
  customer's outstanding amount is not written. The bill dialog
  (\<open>handlePaymentSubmit\<close>) does not compare the amount with any balance: with a user, a
  selected bill and an insert that succeeds, it leaves the rows alone for an amount that
  is not a number or not positive, and inserts a row for every positive amount.
\<close>

theorem payment_amount_gate:
  assumes "user \<noteq> None" and "customer \<noteq> None"
    and "find (\<lambda>s. Sale.id s = PaymentFormData.sale_id data) sales = Some selectedSale"
    and "parseFloat (PaymentFormData.amount data) = Some a"
    and "a > outstanding selectedSale"
    and "user' \<noteq> None" and "selectedBillId dst \<noteq> []"
  shows "onSubmit parseFloat user customer sales insert_error allSalesData allTransData data st
           = st\<lparr>sale_toasts := sale_toasts st @ [Exceeds_outstanding (outstanding selectedSale)]\<rparr>
       \<and> details_state.bill_transactions (handlePaymentSubmit parseFloat' user' None dst)
           = (case parseFloat' (payment_form.amount (paymentData dst)) of
                None \<Rightarrow> details_state.bill_transactions dst
              | Some b \<Rightarrow>
                  if b \<le> 0 then details_state.bill_transactions dst
                  else details_state.bill_transactions dst @
                         [\<lparr>BillTransactionInsert.bill_id = selectedBillId dst,
                           amount = b,
                           transaction_type = paymentType (paymentData dst),
                           payment_mode = payment_form.payment_mode (paymentData dst),
                           notes' = (if payment_form.notes' (paymentData dst) = [] then None
                                     else Some (payment_form.notes' (paymentData dst)))\<rparr>])"
proof -
  have "onSubmit parseFloat user customer sales insert_error allSalesData allTransData data st
           = st\<lparr>sale_toasts := sale_toasts st @ [Exceeds_outstanding (outstanding selectedSale)]\<rparr>"
    using assms(1-5) by (simp add: onSubmit_def)
  moreover have "details_state.bill_transactions (handlePaymentSubmit parseFloat' user' None dst)
           = (case parseFloat' (payment_form.amount (paymentData dst)) of
                None \<Rightarrow> details_state.bill_transactions dst
              | Some b \<Rightarrow>
                  if b \<le> 0 then details_state.bill_transactions dst
                  else details_state.bill_transactions dst @
                         [\<lparr>BillTransactionInsert.bill_id = selectedBillId dst,
                           amount = b,
                           transaction_type = paymentType (paymentData dst),
                           payment_mode = payment_form.payment_mode (paymentData dst),
                           notes' = (if payment_form.notes' (paymentData dst) = [] then None
                                     else Some (payment_form.notes' (paymentData dst)))\<rparr>])"
    using assms(6,7) by (simp add: handlePaymentSubmit_def Let_def split: option.split)
  ultimately show ?thesis by simp
qed

text \<open>
  C4 at a sale with 600 outstanding and an entered amount of 700, and at a bill dialog
  with an entered amount of 5000.
\<close>

theorem payment_amount_gate_witness:
  "onSubmit example_parseFloat (Some ''u1'') (Some (''c1'', ''Sita''))
     [\<lparr>Sale.id = ''s1'', sale_number = ''S-1'', sale_amount = 1000, outstanding = 600\<rparr>]
     None None None
     \<lparr>PaymentFormData.sale_id = ''s1'', amount = ''700'', payment_date = ''2024-01-05'',
       payment_mode = ''cash'', transaction_type = ''payment'', notes' = None\<rparr>
     \<lparr>sale_transactions = [], outstanding_amount = 600, sale_toasts = []\<rparr>
   = \<lparr>sale_transactions = [], outstanding_amount = 600, sale_toasts = [Exceeds_outstanding 600]\<rparr>
   \<and> details_state.bill_transactions
       (handlePaymentSubmit example_parseFloat (Some ''u1'') None
          \<lparr>details_state.bill_transactions = [], toasts = [],
            paymentData = \<lparr>payment_form.amount = ''5000'', paymentType = ''principal'',
                            notes' = [], payment_mode = ''cash''\<rparr>,
            showPaymentDialog = True, selectedBillId = ''b1'', loading = False\<rparr>)
     = [\<lparr>BillTransactionInsert.bill_id = ''b1'', amount = 5000, transaction_type = ''principal'',
          payment_mode = ''cash'', notes' = None\<rparr>]"
  using payment_amount_gate [of "Some ''u1''" "Some (''c1'', ''Sita'')"
     "\<lparr>PaymentFormData.sale_id = ''s1'', amount = ''700'', payment_date = ''2024-01-05'',
       payment_mode = ''cash'', transaction_type = ''payment'', notes' = None\<rparr>"
     "[\<lparr>Sale.id = ''s1'', sale_number = ''S-1'', sale_amount = 1000, outstanding = 600\<rparr>]"
     "\<lparr>Sale.id = ''s1'', sale_number = ''S-1'', sale_amount = 1000, outstanding = 600\<rparr>"
     example_parseFloat 700 "Some ''u1''"
     "\<lparr>details_state.bill_transactions = [], toasts = [],
            paymentData = \<lparr>payment_form.amount = ''5000'', paymentType = ''principal'',
                            notes' = [], payment_mode = ''cash''\<rparr>,
            showPaymentDialog = True, selectedBillId = ''b1'', loading = False\<rparr>"
     None None None "\<lparr>sale_transactions = [], outstanding_amount = 600, sale_toasts = []\<rparr>"
     example_parseFloat]
  by (simp add: example_parseFloat_def)

text \<open>
  C4 as the specification words it fails in the bill dialog: the bill of 1000 has the
  balance 1000, and the payment of 5000 is inserted and announced as recorded.
\<close>

theorem handlePaymentSubmit_accepts_overpayment:
  "calculateBillBalance []
     [\<lparr>Bill.id = ''b1'', bill_amount = 1000, interest_rate = None, interest_type = None,
       bill_date = ''2024-01-01'', due_date = None, description = None, is_active = Some True\<rparr>]
     ''b1'' = 1000
   \<and> handlePaymentSubmit example_parseFloat (Some ''u1'') None
       \<lparr>details_state.bill_transactions = [], toasts = [],
         paymentData = \<lparr>payment_form.amount = ''5000'', paymentType = ''principal'',
                         notes' = [], payment_mode = ''cash''\<rparr>,
         showPaymentDialog = True, selectedBillId = ''b1'', loading = False\<rparr>
     = \<lparr>details_state.bill_transactions =
           [\<lparr>BillTransactionInsert.bill_id = ''b1'', amount = 5000,
             transaction_type = ''principal'', payment_mode = ''cash'', notes' = None\<rparr>],
         toasts = [\<lparr>destructive = False, title = ''Payment recorded'',
                    description = ''Payment has been successfully recorded''\<rparr>],
         paymentData = \<lparr>payment_form.amount = [], paymentType = ''principal'',
                         notes' = [], payment_mode = ''cash''\<rparr>,
         showPaymentDialog = False, selectedBillId = [], loading = False\<rparr>"
  by (simp add: calculateBillBalance_def handlePaymentSubmit_def example_parseFloat_def)

section \<open>The summary per mahajan\<close>

lemma example_rows_eq:
  "example_rows =
     [\<lparr>summary_mahajan.id = ''m1'', name = ''Ram'', phone = None,
       bills = Some [\<lparr>summary_bill.id = ''b1'', bill_amount = 1000, is_active = Some True,
                      bill_transactions = Some
                        [\<lparr>summary_tx.id = ''t1'', amount = 400, payment_date = ''2024-01-05''\<rparr>,
                         \<lparr>summary_tx.id = ''t2'', amount = 50, payment_date = ''2024-02-10''\<rparr>]\<rparr>]\<rparr>,
      \<lparr>summary_mahajan.id = ''m2'', name = ''Shyam'', phone = None,
       bills = Some [\<lparr>summary_bill.id = ''b2'', bill_amount = 500, is_active = Some True,
                      bill_transactions = Some []\<rparr>]\<rparr>,
      \<lparr>summary_mahajan.id = ''m3'', name = ''Gita'', phone = None,
       bills = Some [\<lparr>summary_bill.id = ''b3'', bill_amount = 800, is_active = Some False,
                      bill_transactions = Some
                        [\<lparr>summary_tx.id = ''t3'', amount = 800, payment_date = ''2024-03-01''\<rparr>]\<rparr>]\<rparr>]"
  by (simp add: example_rows_def summary_select_def select_bills_def select_transactions_def
      example_mahajans_def example_bills_def example_transactions_def)

lemma example_summaries:
  "map (processMahajan example_Date) example_rows =
     [\<lparr>MahajanSummaryData.mahajan_id = ''m1'', mahajan_name = ''Ram'', mahajan_phone = None,
       total_bills = 1, active_bills = 1, total_bill_amount = 1000, total_paid_amount = 450,
       outstanding_balance = 550, last_payment_date = Some ''2024-02-10'',
       avg_payment_amount = Some 225, payment_frequency = 2\<rparr>,
      \<lparr>MahajanSummaryData.mahajan_id = ''m2'', mahajan_name = ''Shyam'', mahajan_phone = None,
       total_bills = 1, active_bills = 1, total_bill_amount = 500, total_paid_amount = 0,
       outstanding_balance = 500, last_payment_date = None,
       avg_payment_amount = Some 0, payment_frequency = 0\<rparr>,
      \<lparr>MahajanSummaryData.mahajan_id = ''m3'', mahajan_name = ''Gita'', mahajan_phone = None,
       total_bills = 1, active_bills = 0, total_bill_amount = 800, total_paid_amount = 800,
       outstanding_balance = 0, last_payment_date = Some ''2024-03-01'',
       avg_payment_amount = Some 800, payment_frequency = 1\<rparr>]"
  by (simp add: example_rows_eq processMahajan_def allTransactions_of_def
      sort_by_payment_date_desc_def js_divide_def example_Date_def example_dates_def Let_def)


text \<open>
  C7. A mahajan whose list of bills is empty or missing has the summary with zero bills,
  zero active bills, zero amounts, no last payment date, the average payment 0 and the
  payment count 0; and whatever rows the store answers, \<open>fetchSummaryData\<close> shows no
  error toast.
\<close>

theorem empty_account_summary:
  "processMahajan new_Date \<lparr>summary_mahajan.id = i, name = n, phone = p, bills = Some []\<rparr>
     = \<lparr>MahajanSummaryData.mahajan_id = i, mahajan_name = n, mahajan_phone = p, total_bills = 0, active_bills = 0,
        total_bill_amount = 0, total_paid_amount = 0, outstanding_balance = 0,
        last_payment_date = None, avg_payment_amount = Some 0, payment_frequency = 0\<rparr>
   \<and> processMahajan new_Date \<lparr>summary_mahajan.id = i, name = n, phone = p, bills = None\<rparr>
     = \<lparr>MahajanSummaryData.mahajan_id = i, mahajan_name = n, mahajan_phone = p, total_bills = 0, active_bills = 0,
        total_bill_amount = 0, total_paid_amount = 0, outstanding_balance = 0,
        last_payment_date = None, avg_payment_amount = Some 0, payment_frequency = 0\<rparr>
   \<and> summary_toasts (fetchSummaryData new_Date (\<lambda>f. Inr rows) user fromDate toDate statusFilter st)
     = summary_toasts st"
  by (simp add: processMahajan_def allTransactions_of_def fetchSummaryData_def Let_def
      split: option.split)




text \<open>
  C9. The average payment amount is never the result of a division by zero: it is 0
  for a mahajan whose bills have no transaction, and the total paid divided by the
  number of transactions otherwise.
\<close>

theorem avg_payment_guarded:
  "avg_payment_amount (processMahajan new_Date m)
     = Some (if allTransactions_of (case summary_mahajan.bills m of None \<Rightarrow> [] | Some bs \<Rightarrow> bs) = []
             then 0
             else total_paid_amount (processMahajan new_Date m)
                  / real (length (allTransactions_of
                       (case summary_mahajan.bills m of None \<Rightarrow> [] | Some bs \<Rightarrow> bs))))"
  by (simp add: processMahajan_def js_divide_def Let_def)

lemma in_date_range_iff:
  "in_date_range new_Date startDate endDate s
     \<longleftrightarrow> (\<exists>d. last_payment_date s = Some d \<and> d \<noteq> []
              \<and> getTime (new_Date startDate) \<le> getTime (new_Date d)
              \<and> getTime (new_Date d) \<le> getTime (new_Date endDate))"
  by (auto simp: in_date_range_def Let_def split: option.split)

lemma no_transactions_out_of_range:
  assumes "allTransactions_of (case summary_mahajan.bills m of None \<Rightarrow> [] | Some bs \<Rightarrow> bs) = []"
  shows "\<not> in_date_range new_Date startDate endDate (processMahajan new_Date m)"
  using assms by (simp add: in_date_range_def processMahajan_def Let_def)

text \<open>
  C10, as \<open>fetchSummaryData\<close> with its cache computes the output. Let a user be signed
  in and the from-date and the to-date in effect both be given. When the cache has no
  entry for the key of the two dates and the status filter, and the store answers, a
  summary is in the output exactly when it is the summary of a mahajan of the answer,
  its last payment date exists (a non-empty string) and the time of that date lies in
  the closed interval from the from-date to the to-date; so a mahajan whose bills have
  no transaction is not in the output. When the cache has an entry for the key, the
  output is the cached list, whatever the store holds by now. When the request fails,
  the output stays what it was.
\<close>

theorem fetchSummaryData_date_range:
  assumes "user \<noteq> None"
    and "or_else fromDate (dateFrom st) = startDate" and "startDate \<noteq> []"
    and "or_else toDate (dateTo st) = endDate" and "endDate \<noteq> []"
    and "or_else statusFilter (billStatusFilter st) = filter'"
  shows "(map_of (cache st) (startDate @ ''-'' @ endDate @ ''-'' @ filter') = None
          \<and> query filter' = Inr data
          \<longrightarrow> (s \<in> set (summaryData
                      (fetchSummaryData new_Date query user fromDate toDate statusFilter st))
               \<longleftrightarrow> s \<in> set (map (processMahajan new_Date)
                              (case data of None \<Rightarrow> [] | Some rows \<Rightarrow> rows))
                   \<and> (\<exists>d. last_payment_date s = Some d \<and> d \<noteq> []
                         \<and> getTime (new_Date startDate) \<le> getTime (new_Date d)
                         \<and> getTime (new_Date d) \<le> getTime (new_Date endDate)))
              \<and> (allTransactions_of
                    (case summary_mahajan.bills m of None \<Rightarrow> [] | Some bs \<Rightarrow> bs) = []
                  \<longrightarrow> processMahajan new_Date m
                        \<notin> set (summaryData
                              (fetchSummaryData new_Date query user fromDate toDate statusFilter st))))
       \<and> (map_of (cache st) (startDate @ ''-'' @ endDate @ ''-'' @ filter') = Some cached
          \<longrightarrow> summaryData (fetchSummaryData new_Date query user fromDate toDate statusFilter st)
                = cached)
       \<and> (map_of (cache st) (startDate @ ''-'' @ endDate @ ''-'' @ filter') = None
          \<and> query filter' = Inl e
          \<longrightarrow> summaryData (fetchSummaryData new_Date query user fromDate toDate statusFilter st)
                = summaryData st)"
proof -
  have miss: "summaryData (fetchSummaryData new_Date query user fromDate toDate statusFilter st)
      = filter (in_date_range new_Date startDate endDate)
          (map (processMahajan new_Date) (case data of None \<Rightarrow> [] | Some rows \<Rightarrow> rows))"
    if "map_of (cache st) (startDate @ ''-'' @ endDate @ ''-'' @ filter') = None"
      and "query filter' = Inr data"
    using that assms by (auto simp: fetchSummaryData_def filterByDateRange_def Let_def)
  have hit: "summaryData (fetchSummaryData new_Date query user fromDate toDate statusFilter st)
      = cached"
    if "map_of (cache st) (startDate @ ''-'' @ endDate @ ''-'' @ filter') = Some cached"
    using that assms by (auto simp: fetchSummaryData_def Let_def)
  have err: "summaryData (fetchSummaryData new_Date query user fromDate toDate statusFilter st)
      = summaryData st"
    if "map_of (cache st) (startDate @ ''-'' @ endDate @ ''-'' @ filter') = None"
      and "query filter' = Inl e"
    using that assms by (auto simp: fetchSummaryData_def Let_def)
  show ?thesis
    using miss hit err in_date_range_iff [of new_Date startDate endDate s]
      no_transactions_out_of_range [of m new_Date startDate endDate]
    by auto
qed

lemma example_query_rows:
  "example_query example_transactions ''all'' = Inr (Some example_rows)"
  by (simp add: example_query_def example_rows_def)

lemma example_rows_before:
  "map (processMahajan example_Date)
     (summary_select example_mahajans example_bills [] ''u1'' ''all'')
   = [\<lparr>MahajanSummaryData.mahajan_id = ''m1'', mahajan_name = ''Ram'', mahajan_phone = None,
       total_bills = 1, active_bills = 1, total_bill_amount = 1000, total_paid_amount = 0,
       outstanding_balance = 1000, last_payment_date = None,
       avg_payment_amount = Some 0, payment_frequency = 0\<rparr>,
      \<lparr>MahajanSummaryData.mahajan_id = ''m2'', mahajan_name = ''Shyam'', mahajan_phone = None,
       total_bills = 1, active_bills = 1, total_bill_amount = 500, total_paid_amount = 0,
       outstanding_balance = 500, last_payment_date = None,
       avg_payment_amount = Some 0, payment_frequency = 0\<rparr>,
      \<lparr>MahajanSummaryData.mahajan_id = ''m3'', mahajan_name = ''Gita'', mahajan_phone = None,
       total_bills = 1, active_bills = 0, total_bill_amount = 800, total_paid_amount = 0,
       outstanding_balance = 800, last_payment_date = None,
       avg_payment_amount = Some 0, payment_frequency = 0\<rparr>]"
  by (simp add: summary_select_def select_bills_def select_transactions_def
      example_mahajans_def example_bills_def processMahajan_def allTransactions_of_def Let_def)

lemma example_fetch_after:
  "fetchSummaryData example_Date (example_query example_transactions) (Some ''u1'')
     (Some ''2024-01-01'') (Some ''2024-02-10'') None example_summary_state
   = example_summary_state
       \<lparr>cache := [(''2024-01-01-2024-02-10-all'', [processMahajan example_Date (example_rows ! 0)])],
        summaryData := [processMahajan example_Date (example_rows ! 0)],
        summary_loading := False\<rparr>"
  by (simp add: fetchSummaryData_def or_else_def example_summary_state_def example_query_rows
      example_summaries filterByDateRange_def in_date_range_def example_Date_def example_dates_def)
    (simp add: example_rows_eq processMahajan_def allTransactions_of_def
      sort_by_payment_date_desc_def js_divide_def example_Date_def example_dates_def Let_def)

lemma example_fetch_before:
  "fetchSummaryData example_Date (example_query []) (Some ''u1'')
     (Some ''2024-01-01'') (Some ''2024-02-10'') None example_summary_state
   = example_summary_state
       \<lparr>cache := [(''2024-01-01-2024-02-10-all'', [])], summaryData := [],
        summary_loading := False\<rparr>"
  by (simp add: fetchSummaryData_def or_else_def example_summary_state_def example_query_def
      example_rows_before filterByDateRange_def in_date_range_def Let_def)

text \<open>
  C10 at the range from 2024-01-01 to 2024-02-10. The first request finds no entry in
  the cache: Ram, last paid on 2024-02-10, is in the output, and Shyam, without
  transactions, is not. A second request with the same key finds the entry and shows it,
  though the store would now answer without any transaction. A request that fails on
  the first screen leaves the empty output.
\<close>

theorem fetchSummaryData_date_range_witness:
  "map mahajan_name
     (summaryData (fetchSummaryData example_Date (example_query example_transactions)
        (Some ''u1'') (Some ''2024-01-01'') (Some ''2024-02-10'') None example_summary_state))
     = [''Ram'']
   \<and> processMahajan example_Date (example_rows ! 1)
       \<notin> set (summaryData (fetchSummaryData example_Date (example_query example_transactions)
                 (Some ''u1'') (Some ''2024-01-01'') (Some ''2024-02-10'') None
                 example_summary_state))
   \<and> summaryData (fetchSummaryData example_Date (example_query []) (Some ''u1'')
        (Some ''2024-01-01'') (Some ''2024-02-10'') None
        (fetchSummaryData example_Date (example_query example_transactions) (Some ''u1'')
           (Some ''2024-01-01'') (Some ''2024-02-10'') None example_summary_state))
     = [processMahajan example_Date (example_rows ! 0)]
   \<and> summaryData (fetchSummaryData example_Date example_failing_query (Some ''u1'')
        (Some ''2024-01-01'') (Some ''2024-02-10'') None example_summary_state) = []"
  using
    fetchSummaryData_date_range [where user = "Some ''u1''" and fromDate = "Some ''2024-01-01''"
      and toDate = "Some ''2024-02-10''" and statusFilter = None and st = example_summary_state
      and startDate = "''2024-01-01''" and endDate = "''2024-02-10''" and filter' = "''all''"
      and new_Date = example_Date and query = "example_query example_transactions"
      and data = "Some example_rows" and s = "processMahajan example_Date (example_rows ! 0)"
      and m = "example_rows ! 1"]
    fetchSummaryData_date_range [where user = "Some ''u1''" and fromDate = "Some ''2024-01-01''"
      and toDate = "Some ''2024-02-10''" and statusFilter = None
      and st = "fetchSummaryData example_Date (example_query example_transactions) (Some ''u1'')
           (Some ''2024-01-01'') (Some ''2024-02-10'') None example_summary_state"
      and startDate = "''2024-01-01''" and endDate = "''2024-02-10''" and filter' = "''all''"
      and new_Date = example_Date and query = "example_query []"
      and cached = "[processMahajan example_Date (example_rows ! 0)]"]
    fetchSummaryData_date_range [where user = "Some ''u1''" and fromDate = "Some ''2024-01-01''"
      and toDate = "Some ''2024-02-10''" and statusFilter = None and st = example_summary_state
      and startDate = "''2024-01-01''" and endDate = "''2024-02-10''" and filter' = "''all''"
      and new_Date = example_Date and query = example_failing_query
      and e = "''Failed to fetch''"]
  by (simp add: example_fetch_after or_else_def example_failing_query_def)
    (simp add: example_summary_state_def example_rows_eq example_summaries [unfolded example_rows_eq]
      processMahajan_def allTransactions_of_def sort_by_payment_date_desc_def js_divide_def
      example_Date_def example_dates_def Let_def)

text \<open>
  C10 as the specification words it fails on a cache hit. The range was first requested
  when the store held no transaction, and the empty output was cached; the store now
  holds Ram's payments, his last payment date 2024-02-10 lies in the range, and the
  second request still shows the empty list.
\<close>

theorem fetchSummaryData_cache_hit_is_stale:
  "summaryData
     (fetchSummaryData example_Date (example_query example_transactions) (Some ''u1'')
        (Some ''2024-01-01'') (Some ''2024-02-10'') None
        (fetchSummaryData example_Date (example_query []) (Some ''u1'')
           (Some ''2024-01-01'') (Some ''2024-02-10'') None example_summary_state)) = []
   \<and> example_query example_transactions ''all'' = Inr (Some example_rows)
   \<and> last_payment_date (processMahajan example_Date (example_rows ! 0)) = Some ''2024-02-10''
   \<and> getTime (example_Date ''2024-01-01'') \<le> getTime (example_Date ''2024-02-10'')
   \<and> getTime (example_Date ''2024-02-10'') \<le> getTime (example_Date ''2024-02-10'')"
  by (simp add: example_fetch_before example_query_rows)
    (simp add: fetchSummaryData_def or_else_def example_summary_state_def
      example_rows_eq processMahajan_def allTransactions_of_def
      sort_by_payment_date_desc_def example_Date_def example_dates_def Let_def)

end
